theory Spec2Isabelle
  imports Complex_Main "HOL-Library.Multiset"
begin

section \<open>Data model of \<open>rmgpy/tools/loader.py\<close>\<close>

text \<open>
  The loader works on Python objects created by its collaborators (the input-file reader,
  the Chemkin reader).  A species object is compared by reference when it is used as a
  dictionary key, so the record carries the object's identity in \<open>ident\<close>; two distinct
  objects have distinct identities.  The molecular structures are an abstract type
  \<open>'m\<close>.  Numeric quantities are only carried around, never computed with.

  Reaction systems, termination criteria and reactions are values: each occurrence in a
  list is an object of its own, as the input-file reader and the Chemkin reader create
  them.  An in-place update of such an object is the value at its position replaced.
\<close>

text \<open>
  The subclasses of Python's \<open>OSError\<close> that \<open>os.mkdir\<close> raises, and the exceptions
  that leave \<open>load_rmg_py_job\<close>.
\<close>

datatype oserror = FileExistsError | FileNotFoundError | PermissionError | OtherOSError

datatype error = KeyError | IndexError | OSError oserror | RenderError

record 'm species =
  ident :: nat
  label :: string
  reactive :: bool
  molecule :: "'m list"

datatype 'm termination_criterion =
    TerminationTime real
  | TerminationConversion "'m species" real
  | TerminationRateRatio real

text \<open>An entry of \<open>sensitive_species\<close>: a species object, or a string such as \<open>'all'\<close>.\<close>

datatype 'm sens_entry = SensName string | SensSpecies "'m species"

text \<open>
  The reactor classes tested by \<open>isinstance\<close>, each with the fields the loader reads.
  A Python \<open>dict\<close> is an association list in insertion order.
\<close>

datatype 'm reactor =
    LiquidReactor (const_spc_names: "string list option")
                  (initial_concentrations: "('m species \<times> real) list")
  | SurfaceReactor (initial_gas_mole_fractions: "('m species \<times> real) list")
                   (initial_surface_coverages: "('m species \<times> real) list")
  | SimpleReactor (initial_mole_fractions: "('m species \<times> real) list")
  | MBSampledReactor (initial_mole_fractions: "('m species \<times> real) list")
                     (constantSpeciesList: "'m species list")

record 'm reaction_system =
  reactor :: "'m reactor"
  termination_list :: "'m termination_criterion list"
  sensitive_species :: "'m sens_entry list"

record 'm reaction =
  reactants :: "'m species list"
  products :: "'m species list"
  pairs :: "('m species \<times> 'm species) list option"

record 'm rmg =
  initial_species :: "'m species list"
  reaction_systems :: "'m reaction_system list"
  core_species :: "'m species list"
  core_reactions :: "'m reaction list"

section \<open>Observed species for sampled reactors (lines 83--102)\<close>

text \<open>Python's \<open>sub in s\<close> on strings.\<close>

fun startswith :: "string \<Rightarrow> string \<Rightarrow> bool" where
  "startswith [] s = True"
| "startswith (c # cs) [] = False"
| "startswith (c # cs) (d # ds) = (c = d \<and> startswith cs ds)"

fun str_contains :: "string \<Rightarrow> string \<Rightarrow> bool" where
  "str_contains sub [] = (sub = [])"
| "str_contains sub (c # cs) = (startswith sub (c # cs) \<or> str_contains sub cs)"

text \<open>
  The two inner \<open>for ... break ... else\<close> loops.  \<open>is_iso a b\<close> stands for
  \<open>a.is_isomorphic(b)\<close>, which lives outside this file and is a parameter.
\<close>

fun isomorphic_to_constant ::
  "('m species \<Rightarrow> 'm species \<Rightarrow> bool) \<Rightarrow> 'm species \<Rightarrow> 'm species list \<Rightarrow> bool" where
  "isomorphic_to_constant is_iso s [] = False"
| "isomorphic_to_constant is_iso s (k # ks) =
     (if is_iso s k then True else isomorphic_to_constant is_iso s ks)"

fun label_present :: "string \<Rightarrow> 'm species list \<Rightarrow> bool" where
  "label_present l [] = False"
| "label_present l (s2 # rest) = (if label s2 = l then True else label_present l rest)"

text \<open>
  Modelled from the spec: \<open>species.copy(deep=True)\<close> is a method of the species class,
  which is not in this file.  It creates a new object, a full structural clone that
  shares nothing with the original: the same fields, and a new identity \<open>n\<close> taken from
  the allocator.
\<close>

definition copy_species :: "'m species \<Rightarrow> nat \<Rightarrow> 'm species" where
  "copy_species s n = s\<lparr>ident := n\<rparr>"

text \<open>
  The scan over \<open>species_list\<close> for one sampled reactor: \<open>whole\<close> is the list being
  scanned (it is not changed during the scan), the last argument is what is left of
  it.  The result is \<open>observed_species_list\<close> and the allocator's next identity.
\<close>

fun observed_species ::
  "('m species \<Rightarrow> 'm species \<Rightarrow> bool) \<Rightarrow> 'm species list \<Rightarrow> 'm species list \<Rightarrow> nat \<Rightarrow>
   'm species list \<Rightarrow> 'm species list \<times> nat" where
  "observed_species is_iso ks whole n [] = ([], n)"
| "observed_species is_iso ks whole n (s # rest) =
     (if \<not> str_contains ''_obs'' (label s) \<and> reactive s then
        if isomorphic_to_constant is_iso s ks then observed_species is_iso ks whole n rest
        else if label_present (label s @ ''_obs'') whole then observed_species is_iso ks whole n rest
        else (let observedspecies = (copy_species s n)\<lparr>label := label s @ ''_obs''\<rparr>;
                  (obs, n') = observed_species is_iso ks whole (Suc n) rest
              in (observedspecies # obs, n'))
      else observed_species is_iso ks whole n rest)"

text \<open>The loop over \<open>rmg.reaction_systems\<close>; only sampled reactors extend the list.\<close>

fun add_observed_species ::
  "('m species \<Rightarrow> 'm species \<Rightarrow> bool) \<Rightarrow> 'm reaction_system list \<Rightarrow> 'm species list \<Rightarrow> nat \<Rightarrow>
   'm species list \<times> nat" where
  "add_observed_species is_iso [] species_list n = (species_list, n)"
| "add_observed_species is_iso (rs # rest) species_list n =
     (case reactor rs of
        MBSampledReactor fr ks \<Rightarrow>
          (let (obs, n') = observed_species is_iso ks species_list n species_list
           in add_observed_species is_iso rest (species_list @ obs) n')
      | _ \<Rightarrow> add_observed_species is_iso rest species_list n)"

section \<open>The species dictionary (lines 104--110)\<close>

fun first_isomorphic ::
  "('m species \<Rightarrow> 'm species \<Rightarrow> bool) \<Rightarrow> 'm species \<Rightarrow> 'm species list \<Rightarrow> 'm species option" where
  "first_isomorphic is_iso spec0 [] = None"
| "first_isomorphic is_iso spec0 (s # rest) =
     (if is_iso s spec0 then Some s else first_isomorphic is_iso spec0 rest)"

fun build_species_dict ::
  "('m species \<Rightarrow> 'm species \<Rightarrow> bool) \<Rightarrow> 'm species list \<Rightarrow> ('m species \<rightharpoonup> 'm species) \<Rightarrow>
   'm species list \<Rightarrow> ('m species \<rightharpoonup> 'm species)" where
  "build_species_dict is_iso species_list d [] = d"
| "build_species_dict is_iso species_list d (spec0 # rest) =
     build_species_dict is_iso species_list
       (case first_isomorphic is_iso spec0 species_list of
          None \<Rightarrow> d
        | Some s \<Rightarrow> d(spec0 \<mapsto> s))
       rest"

definition make_species_dict ::
  "('m species \<Rightarrow> 'm species \<Rightarrow> bool) \<Rightarrow> 'm species list \<Rightarrow> 'm species list \<Rightarrow>
   ('m species \<rightharpoonup> 'm species)" where
  "make_species_dict is_iso initial species_list =
     build_species_dict is_iso species_list Map.empty initial"

section \<open>Flux pairs (lines 112--115)\<close>

text \<open>
  Modelled from the spec: \<open>reaction.generate_pairs()\<close> is a method of the reaction class,
  which is not in this file.  It computes the flux pairs of the reaction, a list of
  reactant-product correspondences derived from its reactants and products, and caches
  them in \<open>reaction.pairs\<close>.  The derivation is the parameter \<open>derive\<close>.
\<close>

definition generate_pairs ::
  "('m species list \<Rightarrow> 'm species list \<Rightarrow> ('m species \<times> 'm species) list) \<Rightarrow>
   'm reaction \<Rightarrow> 'm reaction" where
  "generate_pairs derive r = r\<lparr>pairs := Some (derive (reactants r) (products r))\<rparr>"

text \<open>Python's \<open>not reaction.pairs\<close>: true for \<open>None\<close> and for the empty list.\<close>

definition not_pairs :: "'m reaction \<Rightarrow> bool" where
  "not_pairs r = (case pairs r of None \<Rightarrow> True | Some ps \<Rightarrow> ps = [])"

text \<open>
  The loop over \<open>reaction_list\<close>.  Besides the updated list it returns the reactions
  on which \<open>generate_pairs\<close> was called, in call order.
\<close>

fun generate_flux_pairs ::
  "('m species list \<Rightarrow> 'm species list \<Rightarrow> ('m species \<times> 'm species) list) \<Rightarrow>
   'm reaction list \<Rightarrow> 'm reaction list \<times> 'm reaction list" where
  "generate_flux_pairs derive [] = ([], [])"
| "generate_flux_pairs derive (r # rest) =
     (let (rest', calls) = generate_flux_pairs derive rest
      in if not_pairs r then (generate_pairs derive r # rest', r # calls)
         else (r # rest', calls))"

section \<open>Replacing input-file species by Chemkin species (lines 117--146)\<close>

text \<open>\<open>d[k]\<close> on a dictionary: a missing key raises \<open>KeyError\<close>.\<close>

definition getitem :: "('k \<rightharpoonup> 'v) \<Rightarrow> 'k \<Rightarrow> error + 'v" where
  "getitem d k = (case d k of None \<Rightarrow> Inl KeyError | Some v \<Rightarrow> Inr v)"

text \<open>A list comprehension whose element expression may raise: the first error wins.\<close>

fun comprehension :: "('a \<Rightarrow> error + 'b) \<Rightarrow> 'a list \<Rightarrow> error + 'b list" where
  "comprehension f [] = Inr []"
| "comprehension f (x # xs) =
     (case f x of
        Inl e \<Rightarrow> Inl e
      | Inr y \<Rightarrow> (case comprehension f xs of Inl e \<Rightarrow> Inl e | Inr ys \<Rightarrow> Inr (y # ys)))"

text \<open>
  \<open>dict(pairs)\<close>: the pairs are inserted from left to right; a key that is already
  there keeps its place and takes the new value.
\<close>

fun dict_setitem :: "'k \<Rightarrow> 'v \<Rightarrow> ('k \<times> 'v) list \<Rightarrow> ('k \<times> 'v) list" where
  "dict_setitem k v [] = [(k, v)]"
| "dict_setitem k v ((k', v') # rest) =
     (if k' = k then (k', v) # rest else (k', v') # dict_setitem k v rest)"

fun dict_insert_all :: "('k \<times> 'v) list \<Rightarrow> ('k \<times> 'v) list \<Rightarrow> ('k \<times> 'v) list" where
  "dict_insert_all acc [] = acc"
| "dict_insert_all acc ((k, v) # rest) = dict_insert_all (dict_setitem k v acc) rest"

definition py_dict :: "('k \<times> 'v) list \<Rightarrow> ('k \<times> 'v) list" where
  "py_dict ps = dict_insert_all [] ps"

text \<open>\<open>dict([(species_dict[spec], x) for spec, x in mapping.items()])\<close>\<close>

definition remap_mapping ::
  "('m species \<rightharpoonup> 'm species) \<Rightarrow> ('m species \<times> real) list \<Rightarrow> error + ('m species \<times> real) list" where
  "remap_mapping species_dict mapping =
     (case comprehension
             (\<lambda>(spec, x). case getitem species_dict spec of
                              Inl e \<Rightarrow> Inl e | Inr s \<Rightarrow> Inr (s, x))
             mapping of
        Inl e \<Rightarrow> Inl e
      | Inr ps \<Rightarrow> Inr (py_dict ps))"

text \<open>The constant species of a liquid reactor (lines 122--129).\<close>

fun first_equal_label :: "string \<Rightarrow> string list \<Rightarrow> string option" where
  "first_equal_label l [] = None"
| "first_equal_label l (constSpecLabel # rest) =
     (if l = constSpecLabel then Some constSpecLabel else first_equal_label l rest)"

fun build_const_species_dict ::
  "('m species \<rightharpoonup> 'm species) \<Rightarrow> string list \<Rightarrow> (string \<rightharpoonup> string) \<Rightarrow> 'm species list \<Rightarrow>
   error + (string \<rightharpoonup> string)" where
  "build_const_species_dict species_dict names cd [] = Inr cd"
| "build_const_species_dict species_dict names cd (spec0 # rest) =
     (case first_equal_label (label spec0) names of
        None \<Rightarrow> build_const_species_dict species_dict names cd rest
      | Some constSpecLabel \<Rightarrow>
          (case getitem species_dict spec0 of
             Inl e \<Rightarrow> Inl e
           | Inr s \<Rightarrow>
               build_const_species_dict species_dict names (cd(constSpecLabel \<mapsto> label s)) rest))"

definition remap_const_spc_names ::
  "('m species \<rightharpoonup> 'm species) \<Rightarrow> 'm species list \<Rightarrow> string list option \<Rightarrow>
   error + string list option" where
  "remap_const_spc_names species_dict initial names_opt =
     (case names_opt of
        None \<Rightarrow> Inr None
      | Some names \<Rightarrow>
          if names = [] then Inr (Some [])
          else (case build_const_species_dict species_dict names Map.empty initial of
                  Inl e \<Rightarrow> Inl e
                | Inr cd \<Rightarrow>
                    (case comprehension (getitem cd) names of
                       Inl e \<Rightarrow> Inl e
                     | Inr names' \<Rightarrow> Inr (Some names'))))"

text \<open>The \<open>isinstance\<close> dispatch on the reactor class (lines 119--140).\<close>

fun remap_reactor ::
  "('m species \<rightharpoonup> 'm species) \<Rightarrow> 'm species list \<Rightarrow> 'm reactor \<Rightarrow> error + 'm reactor" where
  "remap_reactor species_dict initial (LiquidReactor names conc) =
     (case remap_const_spc_names species_dict initial names of
        Inl e \<Rightarrow> Inl e
      | Inr names' \<Rightarrow>
          (case remap_mapping species_dict conc of
             Inl e \<Rightarrow> Inl e
           | Inr conc' \<Rightarrow> Inr (LiquidReactor names' conc')))"
| "remap_reactor species_dict initial (SurfaceReactor gas cov) =
     (case remap_mapping species_dict gas of
        Inl e \<Rightarrow> Inl e
      | Inr gas' \<Rightarrow>
          (case remap_mapping species_dict cov of
             Inl e \<Rightarrow> Inl e
           | Inr cov' \<Rightarrow> Inr (SurfaceReactor gas' cov')))"
| "remap_reactor species_dict initial (SimpleReactor fr) =
     (case remap_mapping species_dict fr of
        Inl e \<Rightarrow> Inl e
      | Inr fr' \<Rightarrow> Inr (SimpleReactor fr'))"
| "remap_reactor species_dict initial (MBSampledReactor fr ks) =
     (case remap_mapping species_dict fr of
        Inl e \<Rightarrow> Inl e
      | Inr fr' \<Rightarrow> Inr (MBSampledReactor fr' ks))"

text \<open>Lines 142--144: only a \<open>TerminationConversion\<close> has its species replaced.\<close>

fun remap_termination ::
  "('m species \<rightharpoonup> 'm species) \<Rightarrow> 'm termination_criterion \<Rightarrow> error + 'm termination_criterion" where
  "remap_termination species_dict (TerminationConversion spec x) =
     (case getitem species_dict spec of
        Inl e \<Rightarrow> Inl e
      | Inr s \<Rightarrow> Inr (TerminationConversion s x))"
| "remap_termination species_dict t = Inr t"

text \<open>
  Lines 145--146.  The keys of \<open>species_dict\<close> are species objects, so looking a string
  up raises \<open>KeyError\<close>.
\<close>

fun remap_sens_entry ::
  "('m species \<rightharpoonup> 'm species) \<Rightarrow> 'm sens_entry \<Rightarrow> error + 'm sens_entry" where
  "remap_sens_entry species_dict (SensSpecies spec) =
     (case getitem species_dict spec of
        Inl e \<Rightarrow> Inl e
      | Inr s \<Rightarrow> Inr (SensSpecies s))"
| "remap_sens_entry species_dict (SensName name) = Inl KeyError"

text \<open>
  The assignment to \<open>sensitive_species\<close> is guarded by \<open>!= ['all']\<close>.  The result is the
  list that is assigned, or \<open>None\<close> when the assignment is not executed and the attribute
  is left as it is.
\<close>

definition remap_sensitive_species ::
  "('m species \<rightharpoonup> 'm species) \<Rightarrow> 'm sens_entry list \<Rightarrow>
   error + 'm sens_entry list option" where
  "remap_sensitive_species species_dict sens =
     (if sens \<noteq> [SensName ''all''] then
        (case comprehension (remap_sens_entry species_dict) sens of
           Inl e \<Rightarrow> Inl e
         | Inr sens' \<Rightarrow> Inr (Some sens'))
      else Inr None)"

text \<open>One pass of the body of the loop over \<open>rmg.reaction_systems\<close>.\<close>

definition remap_reaction_system ::
  "('m species \<rightharpoonup> 'm species) \<Rightarrow> 'm species list \<Rightarrow> 'm reaction_system \<Rightarrow>
   error + 'm reaction_system" where
  "remap_reaction_system species_dict initial rs =
     (case remap_reactor species_dict initial (reactor rs) of
        Inl e \<Rightarrow> Inl e
      | Inr r' \<Rightarrow>
          (case comprehension (remap_termination species_dict) (termination_list rs) of
             Inl e \<Rightarrow> Inl e
           | Inr ts' \<Rightarrow>
               (case remap_sensitive_species species_dict (sensitive_species rs) of
                  Inl e \<Rightarrow> Inl e
                | Inr None \<Rightarrow> Inr (rs\<lparr>reactor := r', termination_list := ts'\<rparr>)
                | Inr (Some sens') \<Rightarrow>
                    Inr (rs\<lparr>reactor := r', termination_list := ts',
                            sensitive_species := sens'\<rparr>))))"

fun remap_reaction_systems ::
  "('m species \<rightharpoonup> 'm species) \<Rightarrow> 'm species list \<Rightarrow> 'm reaction_system list \<Rightarrow>
   error + 'm reaction_system list" where
  "remap_reaction_systems species_dict initial [] = Inr []"
| "remap_reaction_systems species_dict initial (rs # rest) =
     (case remap_reaction_system species_dict initial rs of
        Inl e \<Rightarrow> Inl e
      | Inr rs' \<Rightarrow>
          (case remap_reaction_systems species_dict initial rest of
             Inl e \<Rightarrow> Inl e
           | Inr rest' \<Rightarrow> Inr (rs' # rest')))"

section \<open>Species images (lines 152--162)\<close>

text \<open>
  The operating system and the drawing of a molecule are outside this file: they are the
  fields of an environment, over a file-system state \<open>'fs\<close>.  \<open>os_mkdir\<close> returns the
  \<open>OSError\<close> it raises, or the new state.
\<close>

record ('m, 'fs) environment =
  os_mkdir :: "string \<Rightarrow> 'fs \<Rightarrow> oserror + 'fs"
  os_path_exists :: "string \<Rightarrow> 'fs \<Rightarrow> bool"
  os_path_join :: "string \<Rightarrow> string \<Rightarrow> string"
  os_path_dirname :: "string \<Rightarrow> string"
  str_species :: "'m species \<Rightarrow> string"
  draw :: "'m \<Rightarrow> string \<Rightarrow> 'fs \<Rightarrow> error + 'fs"

text \<open>\<open>try: os.mkdir(species_path) except OSError: pass\<close>\<close>

definition make_species_dir :: "('m, 'fs) environment \<Rightarrow> string \<Rightarrow> 'fs \<Rightarrow> 'fs" where
  "make_species_dir env species_path fs =
     (case os_mkdir env species_path fs of
        Inl e \<Rightarrow> fs
      | Inr fs' \<Rightarrow> fs')"

fun draw_species ::
  "('m, 'fs) environment \<Rightarrow> string \<Rightarrow> 'fs \<Rightarrow> 'm species list \<Rightarrow> error + 'fs" where
  "draw_species env species_path fs [] = Inr fs"
| "draw_species env species_path fs (s # rest) =
     (let path = os_path_join env species_path (str_species env s @ ''.png'')
      in if \<not> os_path_exists env path fs then
           (case molecule s of
              [] \<Rightarrow> Inl IndexError
            | m # ms \<Rightarrow>
                (case draw env m path fs of
                   Inl e \<Rightarrow> Inl e
                 | Inr fs' \<Rightarrow> draw_species env species_path fs' rest))
         else draw_species env species_path fs rest)"

definition generate_species_images ::
  "('m, 'fs) environment \<Rightarrow> string \<Rightarrow> 'm species list \<Rightarrow> 'fs \<Rightarrow> error + 'fs" where
  "generate_species_images env input_file species_list fs =
     (let species_path = os_path_join env (os_path_dirname env input_file) ''species''
      in draw_species env species_path (make_species_dir env species_path fs) species_list)"

section \<open>\<open>load_rmg_py_job\<close>\<close>

text \<open>
  The function from line 83 on.  Its inputs are what the collaborators called before
  that line have returned: \<open>job\<close> is the \<open>RMG\<close> object after \<open>load_input\<close>,
  \<open>species_list\<close> and \<open>reaction_list\<close> are the result of \<open>load_chemkin_file\<close>;
  \<open>n\<close> is the identity of the next object to be created and \<open>fs\<close> the file system.
  It returns the job and the file system, or the exception it raises.
\<close>

definition load_rmg_py_job ::
  "('m species \<Rightarrow> 'm species \<Rightarrow> bool) \<Rightarrow>
   ('m species list \<Rightarrow> 'm species list \<Rightarrow> ('m species \<times> 'm species) list) \<Rightarrow>
   ('m, 'fs) environment \<Rightarrow> string \<Rightarrow> 'm rmg \<Rightarrow> 'm species list \<Rightarrow> 'm reaction list \<Rightarrow>
   bool \<Rightarrow> nat \<Rightarrow> 'fs \<Rightarrow> error + ('m rmg \<times> 'fs)" where
  "load_rmg_py_job is_iso derive env input_file job species_list reaction_list
       generate_images n fs =
     (let (species_list', n') =
            add_observed_species is_iso (reaction_systems job) species_list n;
          species_dict = make_species_dict is_iso (initial_species job) species_list';
          (reaction_list', calls) = generate_flux_pairs derive reaction_list
      in case remap_reaction_systems species_dict (initial_species job)
                (reaction_systems job) of
           Inl e \<Rightarrow> Inl e
         | Inr systems \<Rightarrow>
             (let job' = job\<lparr>reaction_systems := systems, core_species := species_list',
                              core_reactions := reaction_list'\<rparr>
              in if generate_images then
                   (case generate_species_images env input_file species_list' fs of
                      Inl e \<Rightarrow> Inl e
                    | Inr fs' \<Rightarrow> Inr (job', fs'))
                 else Inr (job', fs)))"

section \<open>Example data\<close>

text \<open>
  Modelled from the spec: \<open>Species.is_isomorphic\<close> is not in this file.  Two species are
  equivalent iff any structure of one is isomorphic to any structure of the other;
  \<open>mol_iso\<close> compares two structures.  It is used to instantiate the parameter
  \<open>is_iso\<close> on concrete data only.
\<close>

definition is_isomorphic :: "('m \<Rightarrow> 'm \<Rightarrow> bool) \<Rightarrow> 'm species \<Rightarrow> 'm species \<Rightarrow> bool" where
  "is_isomorphic mol_iso a b =
     list_ex (\<lambda>m1. list_ex (\<lambda>m2. mol_iso m1 m2) (molecule b)) (molecule a)"

text \<open>Structures written as SMILES strings, compared by equality.\<close>

definition same_structure :: "string species \<Rightarrow> string species \<Rightarrow> bool" where
  "same_structure = is_isomorphic (=)"

text \<open>Species of the input file.\<close>

definition spec_A :: "string species" where
  "spec_A = \<lparr>ident = 1, label = ''A'', reactive = True, molecule = [''C'']\<rparr>"

definition spec_X :: "string species" where
  "spec_X = \<lparr>ident = 3, label = ''X'', reactive = True, molecule = [''O'']\<rparr>"

definition spec_B :: "string species" where
  "spec_B = \<lparr>ident = 4, label = ''B'', reactive = True, molecule = [''N'']\<rparr>"

text \<open>Species of the Chemkin file.\<close>

definition chem_A :: "string species" where
  "chem_A = \<lparr>ident = 10, label = ''A'', reactive = True, molecule = [''C'']\<rparr>"

definition chem_A_dup :: "string species" where
  "chem_A_dup = \<lparr>ident = 11, label = ''A(2)'', reactive = True, molecule = [''C'']\<rparr>"

definition chem_B :: "string species" where
  "chem_B = \<lparr>ident = 12, label = ''B'', reactive = True, molecule = [''N'']\<rparr>"

definition chem_Ar :: "string species" where
  "chem_Ar = \<lparr>ident = 13, label = ''Ar'', reactive = False, molecule = [''[Ar]'']\<rparr>"

text \<open>Two sampled reactors: the first holds \<open>B\<close> constant, the second nothing.\<close>

definition sampled_system :: "string reaction_system" where
  "sampled_system =
     \<lparr>reactor = MBSampledReactor [(spec_A, 1)] [spec_B],
      termination_list = [], sensitive_species = []\<rparr>"

definition sampled_system2 :: "string reaction_system" where
  "sampled_system2 =
     \<lparr>reactor = MBSampledReactor [(spec_A, 1)] [],
      termination_list = [], sensitive_species = []\<rparr>"

text \<open>
  An instance of the pair derivation, and two environments over a file system given as
  the list of the paths that exist: one where a directory can be created unless it
  exists, one where creating a directory is always refused.
\<close>

definition pair_in_order ::
  "string species list \<Rightarrow> string species list \<Rightarrow> (string species \<times> string species) list" where
  "pair_in_order rs ps = zip rs ps"

definition listing_env :: "(string, string list) environment" where
  "listing_env =
     \<lparr>os_mkdir = (\<lambda>p fs. if p \<in> set fs then Inl FileExistsError else Inr (p # fs)),
      os_path_exists = (\<lambda>p fs. p \<in> set fs),
      os_path_join = (\<lambda>a b. a @ ''/'' @ b),
      os_path_dirname = (\<lambda>p. rev (tl (dropWhile (\<lambda>c. c \<noteq> CHR ''/'') (rev p)))),
      str_species = label,
      draw = (\<lambda>m p fs. Inr (p # fs))\<rparr>"

definition denied_env :: "(string, string list) environment" where
  "denied_env = listing_env\<lparr>os_mkdir := (\<lambda>p fs. Inl PermissionError)\<rparr>"

text \<open>A job whose termination criterion names a species with no match.\<close>

definition system_X :: "string reaction_system" where
  "system_X =
     \<lparr>reactor = SimpleReactor [(spec_A, 1)],
      termination_list = [TerminationConversion spec_X (9 / 10)],
      sensitive_species = []\<rparr>"

definition job_X :: "string rmg" where
  "job_X =
     \<lparr>initial_species = [spec_A, spec_X], reaction_systems = [system_X],
      core_species = [], core_reactions = []\<rparr>"

text \<open>Reactions with two pairs, with no pairs yet, and with an empty pair list.\<close>

definition rxn_paired :: "string reaction" where
  "rxn_paired =
     \<lparr>reactants = [chem_A, chem_B], products = [chem_A_dup, chem_Ar],
      pairs = Some [(chem_A, chem_A_dup), (chem_B, chem_Ar)]\<rparr>"

definition rxn_unpaired :: "string reaction" where
  "rxn_unpaired = \<lparr>reactants = [chem_A], products = [chem_A_dup], pairs = None\<rparr>"

definition rxn_empty :: "string reaction" where
  "rxn_empty = \<lparr>reactants = [chem_B], products = [chem_Ar], pairs = Some []\<rparr>"

text \<open>
  A gas-phase reaction system with a conversion criterion, a time criterion and one
  sensitive species, the same with the \<open>'all'\<close> sentinel, and its job.
\<close>

definition system_A :: "string reaction_system" where
  "system_A =
     \<lparr>reactor = SimpleReactor [(spec_A, 1)],
      termination_list = [TerminationConversion spec_A (9 / 10), TerminationTime 10],
      sensitive_species = [SensSpecies spec_A]\<rparr>"

definition system_all :: "string reaction_system" where
  "system_all = system_A\<lparr>sensitive_species := [SensName ''all'']\<rparr>"

definition job_A :: "string rmg" where
  "job_A =
     \<lparr>initial_species = [spec_A], reaction_systems = [system_A],
      core_species = [], core_reactions = []\<rparr>"







text \<open>A liquid-phase reaction system with one constant species.\<close>

definition liquid_system :: "string reaction_system" where
  "liquid_system =
     \<lparr>reactor = LiquidReactor (Some [''A'']) [(spec_A, 1)],
      termination_list = [], sensitive_species = []\<rparr>"

lemmas example_species =
  spec_A_def spec_X_def spec_B_def chem_A_def chem_A_dup_def chem_B_def chem_Ar_def
  same_structure_def is_isomorphic_def

lemmas example_env = listing_env_def denied_env_def pair_in_order_def

section \<open>The species dictionary takes the first match\<close>

lemma first_isomorphic_None:
  "first_isomorphic is_iso spec0 xs = None \<longleftrightarrow> (\<forall>s \<in> set xs. \<not> is_iso s spec0)"
  by (induction xs) auto

lemma first_isomorphic_Some:
  "first_isomorphic is_iso spec0 xs = Some c \<Longrightarrow>
   \<exists>i < length xs. xs ! i = c \<and> is_iso c spec0 \<and> (\<forall>j < i. \<not> is_iso (xs ! j) spec0)"
proof (induction xs)
  case Nil
  then show ?case by simp
next
  case (Cons x xs)
  show ?case
  proof (cases "is_iso x spec0")
    case True
    with Cons.prems have "x = c" by simp
    with True show ?thesis by (intro exI [of _ 0]) simp
  next
    case False
    with Cons.prems have "first_isomorphic is_iso spec0 xs = Some c" by simp
    from Cons.IH [OF this] obtain i where i: "i < length xs" "xs ! i = c" "is_iso c spec0"
      "\<forall>j < i. \<not> is_iso (xs ! j) spec0" by blast
    have "\<forall>j < Suc i. \<not> is_iso ((x # xs) ! j) spec0"
      using False i(4) by (auto simp: less_Suc_eq_0_disj)
    with i show ?thesis by (intro exI [of _ "Suc i"]) simp
  qed
qed

lemma build_species_dict_lookup:
  "build_species_dict is_iso xs d initial spec0 =
     (if spec0 \<in> set initial
      then (case first_isomorphic is_iso spec0 xs of None \<Rightarrow> d spec0 | Some c \<Rightarrow> Some c)
      else d spec0)"
  by (induction initial arbitrary: d) (auto split: option.splits)

text \<open>
  C1.  For every species of the job's initial species list, the species dictionary holds
  the first species of the Chemkin species list, in list order, that is isomorphic to it:
  the entry sits at an index \<open>i\<close> such that no earlier index matches.  A species with no
  isomorphic Chemkin species has no entry, and neither has anything outside the initial
  species list.  The dictionary is a function of the two lists, so two Chemkin species
  of identical structure are resolved to the earlier one on every run.
\<close>

theorem species_dict_first_match:
  "(\<forall>spec0 \<in> set initial.
      case make_species_dict is_iso initial species_list spec0 of
        None \<Rightarrow> \<forall>s \<in> set species_list. \<not> is_iso s spec0
      | Some c \<Rightarrow>
          \<exists>i < length species_list. species_list ! i = c \<and> is_iso c spec0 \<and>
            (\<forall>j < i. \<not> is_iso (species_list ! j) spec0))
   \<and> (\<forall>spec0. spec0 \<notin> set initial \<longrightarrow>
         make_species_dict is_iso initial species_list spec0 = None)"
proof (intro conjI ballI allI impI)
  fix spec0 assume "spec0 \<in> set initial"
  then have eq: "make_species_dict is_iso initial species_list spec0 =
      first_isomorphic is_iso spec0 species_list"
    by (simp add: make_species_dict_def build_species_dict_lookup split: option.splits)
  show "case make_species_dict is_iso initial species_list spec0 of
        None \<Rightarrow> \<forall>s \<in> set species_list. \<not> is_iso s spec0
      | Some c \<Rightarrow>
          \<exists>i < length species_list. species_list ! i = c \<and> is_iso c spec0 \<and>
            (\<forall>j < i. \<not> is_iso (species_list ! j) spec0)"
  proof (cases "first_isomorphic is_iso spec0 species_list")
    case None
    then show ?thesis
      using first_isomorphic_None [of is_iso spec0 species_list] by (simp add: eq)
  next
    case (Some c)
    then show ?thesis using first_isomorphic_Some [OF Some] by (simp add: eq)
  qed
next
  fix spec0 assume "spec0 \<notin> set initial"
  then show "make_species_dict is_iso initial species_list spec0 = None"
    by (simp add: make_species_dict_def build_species_dict_lookup)
qed

theorem species_dict_first_match_witness:
  "make_species_dict same_structure [spec_A, spec_X] [chem_B, chem_A, chem_A_dup] spec_A
     = Some chem_A
   \<and> make_species_dict same_structure [spec_A, spec_X] [chem_B, chem_A, chem_A_dup] spec_X
     = None
   \<and> make_species_dict same_structure [spec_A, spec_X] [chem_B, chem_A, chem_A_dup] spec_B
     = None"
  using species_dict_first_match
    [where initial = "[spec_A, spec_X]" and is_iso = same_structure
       and species_list = "[chem_B, chem_A, chem_A_dup]"]
  by (simp add: make_species_dict_def example_species)
section \<open>Observed species: what is added, and when nothing is\<close>

lemma startswith_append: "startswith sub (sub @ b)"
  by (induction sub) auto

lemma startswith_iff: "startswith sub s \<longleftrightarrow> (\<exists>b. s = sub @ b)"
  by (induction sub s rule: startswith.induct) auto

lemma str_contains_iff: "str_contains sub s \<longleftrightarrow> (\<exists>a b. s = a @ sub @ b)"
proof (induction s)
  case Nil
  then show ?case by auto
next
  case (Cons c cs)
  show ?case
  proof
    assume "str_contains sub (c # cs)"
    then consider "startswith sub (c # cs)" | "str_contains sub cs" by auto
    then show "\<exists>a b. c # cs = a @ sub @ b"
    proof cases
      case 1
      then obtain b where "c # cs = sub @ b" by (auto simp: startswith_iff)
      then have "c # cs = [] @ sub @ b" by simp
      then show ?thesis by blast
    next
      case 2
      with Cons.IH obtain a b where "cs = a @ sub @ b" by blast
      then have "c # cs = (c # a) @ sub @ b" by simp
      then show ?thesis by blast
    qed
  next
    assume "\<exists>a b. c # cs = a @ sub @ b"
    then obtain a b where ab: "c # cs = a @ sub @ b" by blast
    show "str_contains sub (c # cs)"
    proof (cases a)
      case Nil
      with ab have "startswith sub (c # cs)" by (simp add: startswith_append)
      then show ?thesis by simp
    next
      case (Cons a1 as)
      with ab have "cs = as @ sub @ b" by simp
      with Cons.IH have "str_contains sub cs" by blast
      then show ?thesis by simp
    qed
  qed
qed

lemma str_contains_suffix: "str_contains sub (l @ sub)"
proof -
  have "l @ sub = l @ sub @ []" by simp
  then show ?thesis unfolding str_contains_iff by blast
qed

lemma isomorphic_to_constant_iff:
  "isomorphic_to_constant is_iso s ks \<longleftrightarrow> (\<exists>k \<in> set ks. is_iso s k)"
  by (induction ks) auto

lemma label_present_iff: "label_present l xs \<longleftrightarrow> l \<in> label ` set xs"
  by (induction xs) auto

lemma observed_species_eq:
  "observed_species is_iso ks whole n rest =
     (map (\<lambda>(s, i). s\<lparr>ident := i, label := label s @ ''_obs''\<rparr>)
        (zip (filter (\<lambda>s. reactive s \<and> \<not> str_contains ''_obs'' (label s) \<and>
                     \<not> (\<exists>k \<in> set ks. is_iso s k) \<and>
                     label s @ ''_obs'' \<notin> label ` set whole) rest)
             [n ..< n + length (filter (\<lambda>s. reactive s \<and> \<not> str_contains ''_obs'' (label s) \<and>
                     \<not> (\<exists>k \<in> set ks. is_iso s k) \<and>
                     label s @ ''_obs'' \<notin> label ` set whole) rest)]),
      n + length (filter (\<lambda>s. reactive s \<and> \<not> str_contains ''_obs'' (label s) \<and>
                     \<not> (\<exists>k \<in> set ks. is_iso s k) \<and>
                     label s @ ''_obs'' \<notin> label ` set whole) rest))"
proof (induction rest arbitrary: n)
  case Nil
  then show ?case by simp
next
  case (Cons s rest)
  show ?case
    by (simp add: Cons.IH isomorphic_to_constant_iff label_present_iff copy_species_def
          upt_conv_Cons del: upt_Suc)
qed

lemma observed_species_labels:
  "map label (fst (observed_species is_iso ks whole n rest)) =
     map (\<lambda>s. label s @ ''_obs'')
       (filter (\<lambda>s. reactive s \<and> \<not> str_contains ''_obs'' (label s) \<and>
                     \<not> (\<exists>k \<in> set ks. is_iso s k) \<and>
                     label s @ ''_obs'' \<notin> label ` set whole) rest)"
  by (induction rest arbitrary: n)
     (simp_all add: isomorphic_to_constant_iff label_present_iff copy_species_def split_beta)

lemma observed_species_length:
  "snd (observed_species is_iso ks whole n rest) =
     n + length (fst (observed_species is_iso ks whole n rest))"
  by (induction rest arbitrary: n)
     (simp_all add: split_beta)

lemma observed_species_fresh:
  assumes "s \<in> set (fst (observed_species is_iso ks whole n rest))"
  shows "label s \<notin> label ` set whole" and "str_contains ''_obs'' (label s)"
proof -
  let ?P = "\<lambda>s. reactive s \<and> \<not> str_contains ''_obs'' (label s) \<and>
                     \<not> (\<exists>k \<in> set ks. is_iso s k) \<and>
                     label s @ ''_obs'' \<notin> label ` set whole"
  from assms have "label s \<in> set (map label (fst (observed_species is_iso ks whole n rest)))"
    by simp
  then have "label s \<in> (\<lambda>s. label s @ ''_obs'') ` set (filter ?P rest)"
    by (simp only: observed_species_labels set_map)
  then obtain t where t: "label s = label t @ ''_obs''" "t \<in> set (filter ?P rest)"
    by (rule imageE)
  from t(2) have "label t @ ''_obs'' \<notin> label ` set whole"
    unfolding set_filter mem_Collect_eq by (elim conjE)
  with t(1) show "label s \<notin> label ` set whole" by simp
  from t(1) show "str_contains ''_obs'' (label s)" by (simp only: str_contains_suffix)
qed

lemma observed_species_distinct:
  assumes "distinct (map label rest)"
  shows "distinct (map label (fst (observed_species is_iso ks whole n rest)))"
proof -
  let ?P = "\<lambda>s. reactive s \<and> \<not> str_contains ''_obs'' (label s) \<and>
                     \<not> (\<exists>k \<in> set ks. is_iso s k) \<and>
                     label s @ ''_obs'' \<notin> label ` set whole"
  have "distinct (map label (filter ?P rest))"
    using assms by (rule distinct_map_filter)
  then have d: "distinct (filter ?P rest)" and i: "inj_on label (set (filter ?P rest))"
    by (simp_all only: distinct_map)
  have "inj_on (\<lambda>s. label s @ ''_obs'') (set (filter ?P rest))"
  proof (rule inj_onI)
    fix x y
    assume x: "x \<in> set (filter ?P rest)" and y: "y \<in> set (filter ?P rest)"
      and "label x @ ''_obs'' = label y @ ''_obs''"
    then have "label x = label y" by (simp only: append_same_eq)
    from inj_onD [OF i this x y] show "x = y" .
  qed
  with d have "distinct (map (\<lambda>s. label s @ ''_obs'') (filter ?P rest))"
    by (simp only: distinct_map simp_thms)
  then show ?thesis
    by (simp only: observed_species_labels)
qed

lemma observed_species_nothing:
  assumes "\<forall>s \<in> set rest. str_contains ''_obs'' (label s) \<or> label s @ ''_obs'' \<in> label ` set whole
             \<or> \<not> reactive s \<or> (\<exists>k \<in> set ks. is_iso s k)"
  shows "observed_species is_iso ks whole n rest = ([], n)"
  using assms
  by (induction rest arbitrary: n)
     (auto simp: isomorphic_to_constant_iff label_present_iff)

lemma add_observed_species_step:
  "\<exists>added. add_observed_species is_iso [rs] xs n = (xs @ added, n + length added) \<and>
      (\<forall>s \<in> set added. label s \<notin> label ` set xs \<and> str_contains ''_obs'' (label s)) \<and>
      (distinct (map label xs) \<longrightarrow> distinct (map label added))"
proof (cases "reactor rs")
  case (MBSampledReactor fr ks)
  let ?r = "observed_species is_iso ks xs n xs"
  have "add_observed_species is_iso [rs] xs n = (xs @ fst ?r, n + length (fst ?r))"
    using MBSampledReactor observed_species_length [of is_iso ks xs n xs]
    by (simp add: split_beta)
  moreover have "\<forall>s \<in> set (fst ?r). label s \<notin> label ` set xs \<and> str_contains ''_obs'' (label s)"
    using observed_species_fresh by blast
  moreover have "distinct (map label xs) \<longrightarrow> distinct (map label (fst ?r))"
    using observed_species_distinct by blast
  ultimately show ?thesis by blast
qed (auto intro!: exI [of _ "[]"])

lemma add_observed_species_Cons:
  "add_observed_species is_iso (rs # rest) xs n =
     (case add_observed_species is_iso [rs] xs n of (ys, n') \<Rightarrow>
        add_observed_species is_iso rest ys n')"
  by (cases "reactor rs") (simp_all add: split_beta)

lemma add_observed_species_distinct:
  "distinct (map label xs) \<Longrightarrow>
   distinct (map label (fst (add_observed_species is_iso systems xs n)))"
proof (induction systems arbitrary: xs n)
  case Nil
  then show ?case by simp
next
  case (Cons rs rest)
  obtain added where a: "add_observed_species is_iso [rs] xs n = (xs @ added, n + length added)"
    "\<forall>s \<in> set added. label s \<notin> label ` set xs \<and> str_contains ''_obs'' (label s)"
    "distinct (map label xs) \<longrightarrow> distinct (map label added)"
    using add_observed_species_step [of is_iso rs xs n] by blast
  have fresh: "label s \<notin> label ` set xs" if "s \<in> set added" for s
    using bspec [OF a(2) that] by (rule conjunct1)
  have "label ` set xs \<inter> label ` set added = {}"
  proof (rule equals0I)
    fix l assume l: "l \<in> label ` set xs \<inter> label ` set added"
    from l have l1: "l \<in> label ` set xs" by (rule IntD1)
    from l have "l \<in> label ` set added" by (rule IntD2)
    then obtain s where s: "l = label s" "s \<in> set added" by (rule imageE)
    from fresh [OF s(2)] l1 s(1) show False by simp
  qed
  then have "distinct (map label (xs @ added))"
    using Cons.prems a(3) by simp
  from Cons.IH [OF this, of "n + length added"]
  have "distinct (map label (fst (add_observed_species is_iso rest (xs @ added) (n + length added))))" .
  moreover have "add_observed_species is_iso (rs # rest) xs n =
     add_observed_species is_iso rest (xs @ added) (n + length added)"
    by (subst add_observed_species_Cons) (simp only: a(1) prod.case)
  ultimately show ?case by (simp only:)
qed

lemma add_observed_species_twice:
  assumes "reactor rs = MBSampledReactor fr ks"
  shows "add_observed_species is_iso [rs, rs] xs n = add_observed_species is_iso [rs] xs n"
proof -
  let ?r = "observed_species is_iso ks xs n xs"
  let ?ys = "xs @ fst ?r"
  have first: "add_observed_species is_iso [rs] xs n = (?ys, snd ?r)"
    using assms by (simp add: split_beta)
  have "\<forall>s \<in> set ?ys. str_contains ''_obs'' (label s) \<or> label s @ ''_obs'' \<in> label ` set ?ys
             \<or> \<not> reactive s \<or> (\<exists>k \<in> set ks. is_iso s k)"
  proof
    fix s assume "s \<in> set ?ys"
    then consider "s \<in> set xs" | "s \<in> set (fst ?r)" by auto
    then show "str_contains ''_obs'' (label s) \<or> label s @ ''_obs'' \<in> label ` set ?ys
             \<or> \<not> reactive s \<or> (\<exists>k \<in> set ks. is_iso s k)"
    proof cases
      case 1
      show ?thesis
      proof (cases "reactive s \<and> \<not> str_contains ''_obs'' (label s) \<and>
                     \<not> (\<exists>k \<in> set ks. is_iso s k) \<and>
                     label s @ ''_obs'' \<notin> label ` set xs")
        case True
        with 1 have "label s @ ''_obs'' \<in> set (map label (fst ?r))"
          unfolding observed_species_labels by auto
        then have "label s @ ''_obs'' \<in> label ` set ?ys" by auto
        then show ?thesis by blast
      next
        case False
        then show ?thesis by auto
      qed
    next
      case 2
      then show ?thesis using observed_species_fresh(2) by blast
    qed
  qed
  then have "observed_species is_iso ks ?ys (snd ?r) ?ys = ([], snd ?r)"
    by (rule observed_species_nothing)
  then have "add_observed_species is_iso [rs] ?ys (snd ?r) = (?ys, snd ?r)"
    using assms by simp
  then show ?thesis
    by (simp only: add_observed_species_Cons [of is_iso rs "[rs]"] first) simp
qed

text \<open>
  C5.  For a sampled reactor, one pass of the loop appends to the species list exactly one
  species for each species of the list that is reactive, has no \<open>_obs\<close> in its label, is
  isomorphic to none of the reactor's constant species, and for which the list holds no
  species labelled with its label plus \<open>_obs\<close>.  The appended species is the copy of the
  original (a new object, same reactivity and structures) with \<open>_obs\<close> appended to the
  label; the additions follow the originals' order and nothing is removed, so the length
  grows by the number of such species.
\<close>

theorem observed_species_added:
  assumes "reactor rs = MBSampledReactor fr ks"
    and "eligible =
      filter (\<lambda>s. reactive s \<and> \<not> (\<exists>a b. label s = a @ ''_obs'' @ b) \<and>
                  \<not> (\<exists>k \<in> set ks. is_iso s k) \<and>
                  \<not> (\<exists>s2 \<in> set species_list. label s2 = label s @ ''_obs''))
        species_list"
  shows "add_observed_species is_iso [rs] species_list n =
           (species_list @
              map (\<lambda>(s, i). s\<lparr>ident := i, label := label s @ ''_obs''\<rparr>)
                (zip eligible [n ..< n + length eligible]),
            n + length eligible)
         \<and> length (fst (add_observed_species is_iso [rs] species_list n)) =
             length species_list + length eligible"
proof -
  have same: "eligible =
      filter (\<lambda>s. reactive s \<and> \<not> str_contains ''_obs'' (label s) \<and>
                  \<not> (\<exists>k \<in> set ks. is_iso s k) \<and>
                  label s @ ''_obs'' \<notin> label ` set species_list)
        species_list"
    unfolding assms(2)
    by (rule filter_cong [OF refl]) (auto simp: str_contains_iff image_iff)
  have "add_observed_species is_iso [rs] species_list n =
          (case observed_species is_iso ks species_list n species_list of
             (obs, n') \<Rightarrow> (species_list @ obs, n'))"
    using assms(1) by (simp add: split_beta)
  also have "\<dots> = (species_list @
              map (\<lambda>(s, i). s\<lparr>ident := i, label := label s @ ''_obs''\<rparr>)
                (zip eligible [n ..< n + length eligible]),
            n + length eligible)"
    by (simp only: observed_species_eq same [symmetric] prod.case)
  finally have main: "add_observed_species is_iso [rs] species_list n =
           (species_list @
              map (\<lambda>(s, i). s\<lparr>ident := i, label := label s @ ''_obs''\<rparr>)
                (zip eligible [n ..< n + length eligible]),
            n + length eligible)" .
  then show ?thesis by simp
qed


theorem observed_species_added_witness:
  "add_observed_species same_structure [sampled_system] [chem_A, chem_B, chem_Ar] 100 =
     ([chem_A, chem_B, chem_Ar,
       \<lparr>ident = 100, label = ''A_obs'', reactive = True, molecule = [''C'']\<rparr>], 101)
   \<and> length (fst (add_observed_species same_structure [sampled_system]
         [chem_A, chem_B, chem_Ar] 100)) = length [chem_A, chem_B, chem_Ar] + 1"
proof -
  have h1: "reactor sampled_system = MBSampledReactor [(spec_A, 1)] [spec_B]"
    by (simp add: sampled_system_def)
  have h2: "[chem_A] =
      filter (\<lambda>s. reactive s \<and> \<not> (\<exists>a b. label s = a @ ''_obs'' @ b) \<and>
                  \<not> (\<exists>k \<in> set [spec_B]. same_structure s k) \<and>
                  \<not> (\<exists>s2 \<in> set [chem_A, chem_B, chem_Ar]. label s2 = label s @ ''_obs''))
        [chem_A, chem_B, chem_Ar]"
    by (simp add: str_contains_iff [symmetric] example_species)
  from observed_species_added [OF h1 h2, of 100] show ?thesis
    by (simp add: example_species sampled_system_def)
qed

text \<open>
  C6.  Running the loop a second time for the same sampled reactor adds nothing.  Whatever
  a second reactor adds after the first reactor's additions were appended has a label that
  is not in the list it scanned.  If the labels of the species list are pairwise distinct,
  they are still pairwise distinct after the loop over any sequence of reactors.
\<close>

theorem observed_species_idempotent:
  "(reactor rs = MBSampledReactor fr ks \<longrightarrow>
      add_observed_species is_iso [rs, rs] species_list n =
      add_observed_species is_iso [rs] species_list n)
   \<and> (\<exists>added.
         add_observed_species is_iso [first_rs, second_rs] species_list n =
           (fst (add_observed_species is_iso [first_rs] species_list n) @ added,
            snd (add_observed_species is_iso [first_rs] species_list n) + length added) \<and>
         (\<forall>s \<in> set added.
            label s \<notin> label ` set (fst (add_observed_species is_iso [first_rs] species_list n))))
   \<and> (distinct (map label species_list) \<longrightarrow>
         distinct (map label (fst (add_observed_species is_iso systems species_list n))))"
proof (intro conjI impI)
  assume "reactor rs = MBSampledReactor fr ks"
  then show "add_observed_species is_iso [rs, rs] species_list n =
      add_observed_species is_iso [rs] species_list n"
    by (rule add_observed_species_twice)
next
  let ?ys = "fst (add_observed_species is_iso [first_rs] species_list n)"
  let ?n1 = "snd (add_observed_species is_iso [first_rs] species_list n)"
  obtain added where a:
    "add_observed_species is_iso [second_rs] ?ys ?n1 = (?ys @ added, ?n1 + length added)"
    "\<forall>s \<in> set added. label s \<notin> label ` set ?ys \<and> str_contains ''_obs'' (label s)"
    using add_observed_species_step [of is_iso second_rs ?ys ?n1] by blast
  have "add_observed_species is_iso [first_rs, second_rs] species_list n =
      add_observed_species is_iso [second_rs] ?ys ?n1"
    by (subst add_observed_species_Cons) (simp only: split_beta)
  with a(1) have "add_observed_species is_iso [first_rs, second_rs] species_list n =
      (?ys @ added, ?n1 + length added)" by (simp only:)
  moreover have "\<forall>s \<in> set added. label s \<notin> label ` set ?ys"
  proof
    fix s assume "s \<in> set added"
    from bspec [OF a(2) this] show "label s \<notin> label ` set ?ys" by (rule conjunct1)
  qed
  ultimately show "\<exists>added.
         add_observed_species is_iso [first_rs, second_rs] species_list n =
           (?ys @ added, ?n1 + length added) \<and>
         (\<forall>s \<in> set added. label s \<notin> label ` set ?ys)"
    by (intro exI [of _ added] conjI)
next
  assume "distinct (map label species_list)"
  then show "distinct (map label (fst (add_observed_species is_iso systems species_list n)))"
    by (rule add_observed_species_distinct)
qed


theorem observed_species_idempotent_witness:
  "add_observed_species same_structure [sampled_system, sampled_system]
       [chem_A, chem_B, chem_Ar] 100 =
     ([chem_A, chem_B, chem_Ar,
       \<lparr>ident = 100, label = ''A_obs'', reactive = True, molecule = [''C'']\<rparr>], 101)
   \<and> map label (fst (add_observed_species same_structure [sampled_system, sampled_system2]
         [chem_A, chem_B, chem_Ar] 100)) = [''A'', ''B'', ''Ar'', ''A_obs'', ''B_obs'']
   \<and> distinct (map label (fst (add_observed_species same_structure
         [sampled_system, sampled_system2] [chem_A, chem_B, chem_Ar] 100)))"
  using observed_species_idempotent
    [where rs = sampled_system and fr = "[(spec_A, 1)]" and ks = "[spec_B]"
       and is_iso = same_structure and species_list = "[chem_A, chem_B, chem_Ar]"
       and n = 100 and first_rs = sampled_system and second_rs = sampled_system2
       and systems = "[sampled_system, sampled_system2]"]
  by (simp add: example_species sampled_system_def sampled_system2_def copy_species_def)
section \<open>Flux pairs are generated once\<close>

lemma generate_flux_pairs_calls:
  "snd (generate_flux_pairs derive rs) = filter not_pairs rs"
  by (induction rs) (simp_all add: split_beta)

lemma generate_flux_pairs_list:
  "fst (generate_flux_pairs derive rs) =
     map (\<lambda>r. if not_pairs r then generate_pairs derive r else r) rs"
  by (induction rs) (simp_all add: split_beta)

lemma generate_pairs_again:
  "generate_pairs derive (generate_pairs derive r) = generate_pairs derive r"
  by (simp add: generate_pairs_def)

text \<open>
  C3.  \<open>generate_pairs\<close> is called on exactly the reactions whose \<open>pairs\<close> is \<open>None\<close> or
  empty, in list order.  A reaction whose \<open>pairs\<close> is a non-empty list is returned as it
  is; the others get the derived pairs and are otherwise unchanged.  Running the loop on
  its own result gives the same reaction list.
\<close>

theorem flux_pairs_completed_once:
  "snd (generate_flux_pairs derive reaction_list) =
     filter (\<lambda>r. pairs r = None \<or> pairs r = Some []) reaction_list
   \<and> length (fst (generate_flux_pairs derive reaction_list)) = length reaction_list
   \<and> (\<forall>i < length reaction_list.
         (pairs (reaction_list ! i) \<noteq> None \<and> pairs (reaction_list ! i) \<noteq> Some [] \<longrightarrow>
            fst (generate_flux_pairs derive reaction_list) ! i = reaction_list ! i) \<and>
         (pairs (reaction_list ! i) = None \<or> pairs (reaction_list ! i) = Some [] \<longrightarrow>
            fst (generate_flux_pairs derive reaction_list) ! i =
              (reaction_list ! i)\<lparr>pairs := Some (derive (reactants (reaction_list ! i))
                                                     (products (reaction_list ! i)))\<rparr>))
   \<and> fst (generate_flux_pairs derive (fst (generate_flux_pairs derive reaction_list))) =
       fst (generate_flux_pairs derive reaction_list)"
proof (intro conjI allI impI)
  have np: "not_pairs = (\<lambda>r. pairs r = None \<or> pairs r = Some [])"
    by (rule ext) (simp add: not_pairs_def split: option.splits)
  show "snd (generate_flux_pairs derive reaction_list) =
     filter (\<lambda>r. pairs r = None \<or> pairs r = Some []) reaction_list"
    by (simp add: generate_flux_pairs_calls np)
  show "length (fst (generate_flux_pairs derive reaction_list)) = length reaction_list"
    by (simp add: generate_flux_pairs_list)
  show "fst (generate_flux_pairs derive (fst (generate_flux_pairs derive reaction_list))) =
       fst (generate_flux_pairs derive reaction_list)"
    by (simp add: generate_flux_pairs_list generate_pairs_again)
next
  fix i
  assume "i < length reaction_list"
    and "pairs (reaction_list ! i) \<noteq> None \<and> pairs (reaction_list ! i) \<noteq> Some []"
  then show "fst (generate_flux_pairs derive reaction_list) ! i = reaction_list ! i"
    by (auto simp: generate_flux_pairs_list not_pairs_def split: option.splits)
next
  fix i
  assume "i < length reaction_list"
    and "pairs (reaction_list ! i) = None \<or> pairs (reaction_list ! i) = Some []"
  then show "fst (generate_flux_pairs derive reaction_list) ! i =
              (reaction_list ! i)\<lparr>pairs := Some (derive (reactants (reaction_list ! i))
                                                     (products (reaction_list ! i)))\<rparr>"
    by (auto simp: generate_flux_pairs_list not_pairs_def generate_pairs_def split: option.splits)
qed

theorem flux_pairs_completed_once_witness:
  "generate_flux_pairs pair_in_order [rxn_paired, rxn_unpaired, rxn_empty] =
     ([rxn_paired, rxn_unpaired\<lparr>pairs := Some [(chem_A, chem_A_dup)]\<rparr>,
       rxn_empty\<lparr>pairs := Some [(chem_B, chem_Ar)]\<rparr>],
      [rxn_unpaired, rxn_empty])
   \<and> pairs (fst (generate_flux_pairs pair_in_order [rxn_paired, rxn_unpaired, rxn_empty]) ! 0)
       = Some [(chem_A, chem_A_dup), (chem_B, chem_Ar)]"
  using flux_pairs_completed_once
    [where derive = pair_in_order and reaction_list = "[rxn_paired, rxn_unpaired, rxn_empty]"]
  by (simp add: rxn_paired_def rxn_unpaired_def rxn_empty_def pair_in_order_def
        generate_pairs_def not_pairs_def)

section \<open>Errors of the replacement step\<close>

lemma getitem_Inl: "getitem d k = Inl e \<Longrightarrow> e = KeyError \<and> d k = None"
  by (simp add: getitem_def split: option.splits)

lemma getitem_Inr: "getitem d k = Inr v \<longleftrightarrow> d k = Some v"
  by (simp add: getitem_def split: option.splits)

lemma getitem_None: "d k = None \<Longrightarrow> getitem d k = Inl KeyError"
  by (simp add: getitem_def)

lemma comprehension_Inl:
  "comprehension f xs = Inl e \<Longrightarrow> \<exists>x \<in> set xs. f x = Inl e"
  by (induction xs arbitrary: e) (auto split: sum.splits)

lemma comprehension_fails:
  "x \<in> set xs \<Longrightarrow> f x = Inl e \<Longrightarrow> \<exists>e'. comprehension f xs = Inl e'"
  by (induction xs) (auto split: sum.splits)

lemma comprehension_Inr:
  "comprehension f xs = Inr ys \<Longrightarrow> list_all2 (\<lambda>x y. f x = Inr y) xs ys"
proof (induction xs arbitrary: ys)
  case Nil
  then show ?case by simp
next
  case (Cons x xs)
  from Cons.prems obtain y ys' where "f x = Inr y" "comprehension f xs = Inr ys'" "ys = y # ys'"
    by (auto split: sum.splits)
  with Cons.IH [of ys'] show ?case by simp
qed

lemma comprehension_map:
  "(\<And>x. x \<in> set xs \<Longrightarrow> f x = Inr (g x)) \<Longrightarrow> comprehension f xs = Inr (map g xs)"
  by (induction xs) simp_all

lemma comprehension_KeyError:
  assumes "\<And>x e. f x = Inl e \<Longrightarrow> e = KeyError" and "x \<in> set xs" and "f x = Inl e"
  shows "comprehension f xs = Inl KeyError"
proof -
  from comprehension_fails [of x xs f e, OF assms(2,3)]
  obtain e' where e': "comprehension f xs = Inl e'" by blast
  from comprehension_Inl [OF e'] assms(1) have "e' = KeyError" by blast
  with e' show ?thesis by simp
qed

lemma remap_mapping_Inl: "remap_mapping d m = Inl e \<Longrightarrow> e = KeyError"
proof -
  assume a: "remap_mapping d m = Inl e"
  let ?f = "\<lambda>(spec, x :: real). case getitem d spec of
                              Inl e \<Rightarrow> Inl e | Inr s \<Rightarrow> Inr (s, x)"
  from a have "comprehension ?f m = Inl e"
    by (simp add: remap_mapping_def split: sum.splits)
  from comprehension_Inl [OF this] obtain p where p: "p \<in> set m" "?f p = Inl e" by blast
  obtain spec x where "p = (spec, x)" by (cases p)
  with p(2) show ?thesis
    by (auto split: sum.splits dest: getitem_Inl)
qed

lemma remap_mapping_missing:
  assumes "(spec, x) \<in> set m" and "d spec = None"
  shows "remap_mapping d m = Inl KeyError"
proof -
  let ?f = "\<lambda>(spec, x :: real). case getitem d spec of
                              Inl e \<Rightarrow> Inl e | Inr s \<Rightarrow> Inr (s, x)"
  have "?f (spec, x) = Inl KeyError"
    using assms(2) by (simp add: getitem_None)
  from comprehension_fails [of "(spec, x)" m ?f KeyError, OF assms(1) this]
  obtain e where "comprehension ?f m = Inl e" by blast
  then have e: "remap_mapping d m = Inl e" by (simp add: remap_mapping_def)
  from remap_mapping_Inl [OF e] e show ?thesis by simp
qed


lemma remap_termination_Inl: "remap_termination d t = Inl e \<Longrightarrow> e = KeyError"
  by (cases t) (auto split: sum.splits dest: getitem_Inl)

lemma remap_sens_entry_Inl: "remap_sens_entry d s = Inl e \<Longrightarrow> e = KeyError"
  by (cases s) (auto split: sum.splits dest: getitem_Inl)

lemma build_const_species_dict_Inl:
  "build_const_species_dict d names cd initial = Inl e \<Longrightarrow> e = KeyError"
  by (induction initial arbitrary: cd) (auto split: option.splits sum.splits dest: getitem_Inl)

lemma remap_const_spc_names_Inl:
  "remap_const_spc_names d initial names = Inl e \<Longrightarrow> e = KeyError"
proof -
  assume a: "remap_const_spc_names d initial names = Inl e"
  then obtain ns where ns: "names = Some ns" "ns \<noteq> []"
    by (auto simp: remap_const_spc_names_def split: option.splits if_splits)
  show ?thesis
  proof (cases "build_const_species_dict d ns Map.empty initial")
    case (Inl e')
    with a ns have "e' = e" by (simp add: remap_const_spc_names_def)
    with Inl show ?thesis by (auto dest: build_const_species_dict_Inl)
  next
    case (Inr cd)
    with a ns have "comprehension (getitem cd) ns = Inl e"
      by (simp add: remap_const_spc_names_def split: sum.splits)
    from comprehension_Inl [OF this] show ?thesis by (auto dest: getitem_Inl)
  qed
qed

lemma remap_reactor_Inl: "remap_reactor d initial r = Inl e \<Longrightarrow> e = KeyError"
  by (cases r)
     (auto split: sum.splits dest: remap_mapping_Inl remap_const_spc_names_Inl)

lemma remap_sensitive_species_Inl:
  "remap_sensitive_species d sens = Inl e \<Longrightarrow> e = KeyError"
  by (auto simp: remap_sensitive_species_def split: if_splits sum.splits
           dest!: comprehension_Inl dest: remap_sens_entry_Inl)

lemma remap_reaction_system_Inl:
  "remap_reaction_system d initial rs = Inl e \<Longrightarrow> e = KeyError"
  by (auto simp: remap_reaction_system_def split: sum.splits option.splits
           dest: remap_reactor_Inl remap_sensitive_species_Inl
           dest!: comprehension_Inl dest: remap_termination_Inl)

lemma remap_reaction_systems_Inl:
  "remap_reaction_systems d initial systems = Inl e \<Longrightarrow> e = KeyError"
  by (induction systems arbitrary: e)
     (auto split: sum.splits dest: remap_reaction_system_Inl)

lemma remap_reaction_systems_fails:
  "rs \<in> set systems \<Longrightarrow> remap_reaction_system d initial rs = Inl e \<Longrightarrow>
   remap_reaction_systems d initial systems = Inl KeyError"
proof (induction systems)
  case Nil
  then show ?case by simp
next
  case (Cons a systems)
  show ?case
  proof (cases "remap_reaction_system d initial a")
    case (Inl e')
    then show ?thesis by (auto dest: remap_reaction_system_Inl)
  next
    case (Inr a')
    with Cons.prems have "rs \<in> set systems" by auto
    from Cons.IH [OF this Cons.prems(2)] Inr show ?thesis by simp
  qed
qed

lemma comprehension_Inr_set:
  assumes "comprehension f xs = Inr ys" and "x \<in> set xs"
  shows "\<exists>y. f x = Inr y"
proof (cases "f x")
  case (Inl e)
  from comprehension_fails [of x xs f e, OF assms(2) Inl] assms(1) show ?thesis by auto
next
  case (Inr y)
  then show ?thesis by blast
qed

lemma remap_mapping_Inr_key:
  "remap_mapping d m = Inr m' \<Longrightarrow> (spec, x) \<in> set m \<Longrightarrow> d spec \<noteq> None"
  using remap_mapping_missing [of spec x m d] by auto

lemma remap_reactor_Inr_keys:
  assumes "remap_reactor d initial r = Inr r'"
  shows "r = LiquidReactor names conc \<Longrightarrow> (spec, x) \<in> set conc \<Longrightarrow> d spec \<noteq> None"
    and "r = SurfaceReactor gas cov \<Longrightarrow> (spec, x) \<in> set gas \<or> (spec, x) \<in> set cov \<Longrightarrow>
           d spec \<noteq> None"
    and "r = SimpleReactor fr \<Longrightarrow> (spec, x) \<in> set fr \<Longrightarrow> d spec \<noteq> None"
    and "r = MBSampledReactor fr ks \<Longrightarrow> (spec, x) \<in> set fr \<Longrightarrow> d spec \<noteq> None"
  using assms
  by (auto split: sum.splits dest: remap_mapping_Inr_key)

lemma remap_termination_Inr_key:
  assumes "comprehension (remap_termination d) ts = Inr ts'"
    and "TerminationConversion spec x \<in> set ts"
  shows "d spec \<noteq> None"
proof -
  from comprehension_Inr_set [OF assms] obtain y
    where "remap_termination d (TerminationConversion spec x) = Inr y" by blast
  then show ?thesis by (auto simp: getitem_def split: option.splits sum.splits)
qed

lemma remap_sensitive_Inr_key:
  assumes "remap_sensitive_species d sens = Inr sens'"
    and "sens \<noteq> [SensName ''all'']" and "SensSpecies spec \<in> set sens"
  shows "d spec \<noteq> None"
proof -
  from assms(1,2) obtain ys where "comprehension (remap_sens_entry d) sens = Inr ys"
    by (auto simp: remap_sensitive_species_def split: sum.splits)
  from comprehension_Inr_set [OF this assms(3)] obtain y
    where "remap_sens_entry d (SensSpecies spec) = Inr y" by blast
  then show ?thesis by (auto simp: getitem_def split: option.splits sum.splits)
qed


lemma remap_reaction_system_Inr:
  assumes "remap_reaction_system d initial rs = Inr rs'"
  shows "\<exists>r' ts' sens'.
      remap_reactor d initial (reactor rs) = Inr r' \<and>
      comprehension (remap_termination d) (termination_list rs) = Inr ts' \<and>
      remap_sensitive_species d (sensitive_species rs) = Inr sens' \<and>
      reactor rs' = r' \<and> termination_list rs' = ts' \<and>
      sensitive_species rs' = (case sens' of None \<Rightarrow> sensitive_species rs | Some s \<Rightarrow> s)"
  using assms
  by (auto simp: remap_reaction_system_def split: sum.splits option.splits)

lemma remap_termination_Inr:
  "remap_termination d t = Inr t' \<Longrightarrow>
   (case t of
      TerminationConversion spec x \<Rightarrow> \<exists>s. d spec = Some s \<and> t' = TerminationConversion s x
    | TerminationTime a \<Rightarrow> t' = TerminationTime a
    | TerminationRateRatio r \<Rightarrow> t' = TerminationRateRatio r)"
  by (cases t) (auto simp: getitem_def split: option.splits sum.splits)

lemma remap_sens_entry_Inr:
  "remap_sens_entry d e = Inr e' \<Longrightarrow>
   \<exists>spec s. e = SensSpecies spec \<and> d spec = Some s \<and> e' = SensSpecies s"
  by (cases e) (auto simp: getitem_def split: option.splits sum.splits)

section \<open>A species without a match fails the whole load\<close>

text \<open>
  C2.  Let \<open>species_dict\<close> be the dictionary the loader builds.  If a reaction system of
  the job refers to a species that has no entry in it (a key of an initial-concentration,
  mole-fraction or coverage mapping, the species of a \<open>TerminationConversion\<close>, or an
  entry of a sensitive-species list that is not \<open>['all']\<close>), replacing the species of
  that reaction system raises \<open>KeyError\<close>, so does the loop over all reaction systems,
  and \<open>load_rmg_py_job\<close> raises \<open>KeyError\<close>: it returns no job.
\<close>

theorem unresolved_reference_is_fatal:
  assumes "rs \<in> set (reaction_systems job)"
    and "species_dict =
      make_species_dict is_iso (initial_species job)
        (fst (add_observed_species is_iso (reaction_systems job) species_list n))"
    and "(\<exists>names conc spec x. reactor rs = LiquidReactor names conc \<and> (spec, x) \<in> set conc \<and>
            species_dict spec = None)
      \<or> (\<exists>gas cov spec x. reactor rs = SurfaceReactor gas cov \<and>
            ((spec, x) \<in> set gas \<or> (spec, x) \<in> set cov) \<and> species_dict spec = None)
      \<or> (\<exists>fr spec x. reactor rs = SimpleReactor fr \<and> (spec, x) \<in> set fr \<and>
            species_dict spec = None)
      \<or> (\<exists>fr ks spec x. reactor rs = MBSampledReactor fr ks \<and> (spec, x) \<in> set fr \<and>
            species_dict spec = None)
      \<or> (\<exists>spec x. TerminationConversion spec x \<in> set (termination_list rs) \<and>
            species_dict spec = None)
      \<or> (sensitive_species rs \<noteq> [SensName ''all''] \<and>
          (\<exists>spec. SensSpecies spec \<in> set (sensitive_species rs) \<and> species_dict spec = None))"
  shows "remap_reaction_system species_dict (initial_species job) rs = Inl KeyError
    \<and> remap_reaction_systems species_dict (initial_species job) (reaction_systems job) =
        Inl KeyError
    \<and> load_rmg_py_job is_iso derive env input_file job species_list reaction_list
        generate_images n fs = Inl KeyError"
proof -
  let ?d = species_dict and ?init = "initial_species job"
  have not_ok: "remap_reaction_system ?d ?init rs \<noteq> Inr rs'" for rs'
  proof
    assume ok: "remap_reaction_system ?d ?init rs = Inr rs'"
    then obtain r' ts' sens' where
      r': "remap_reactor ?d ?init (reactor rs) = Inr r'" and
      ts': "comprehension (remap_termination ?d) (termination_list rs) = Inr ts'" and
      sens': "remap_sensitive_species ?d (sensitive_species rs) = Inr sens'"
      by (auto simp: remap_reaction_system_def split: sum.splits option.splits)
    from assms(3) show False
      using remap_reactor_Inr_keys [OF r'] remap_termination_Inr_key [OF ts']
        remap_sensitive_Inr_key [OF sens']
      by blast
  qed
  then obtain e where e: "remap_reaction_system ?d ?init rs = Inl e"
    by (cases "remap_reaction_system ?d ?init rs") auto
  from remap_reaction_system_Inl [OF e] e
  have one: "remap_reaction_system ?d ?init rs = Inl KeyError" by simp
  from remap_reaction_systems_fails [OF assms(1) one]
  have all: "remap_reaction_systems ?d ?init (reaction_systems job) = Inl KeyError" .
  have "load_rmg_py_job is_iso derive env input_file job species_list reaction_list
        generate_images n fs = Inl KeyError"
    using all unfolding assms(2)
    by (simp add: load_rmg_py_job_def split_beta Let_def)
  with one all show ?thesis by simp
qed

theorem unresolved_reference_is_fatal_witness:
  "remap_reaction_system (make_species_dict same_structure [spec_A, spec_X] [chem_A, chem_B])
       [spec_A, spec_X] system_X = Inl KeyError
   \<and> load_rmg_py_job same_structure pair_in_order listing_env ''job/input.py'' job_X
       [chem_A, chem_B] [] False 100 [] = Inl KeyError"
proof -
  let ?d = "make_species_dict same_structure [spec_A, spec_X] [chem_A, chem_B]"
  have h1: "system_X \<in> set (reaction_systems job_X)"
    by (simp add: job_X_def)
  have h2: "?d = make_species_dict same_structure (initial_species job_X)
      (fst (add_observed_species same_structure (reaction_systems job_X) [chem_A, chem_B] 100))"
    by (simp add: job_X_def system_X_def)
  have none: "?d spec_X = None"
    by (simp add: make_species_dict_def example_species)
  have "TerminationConversion spec_X (9 / 10) \<in> set (termination_list system_X)"
    by (simp add: system_X_def)
  with none have h3:
    "(\<exists>names conc spec x. reactor system_X = LiquidReactor names conc \<and> (spec, x) \<in> set conc \<and>
            ?d spec = None)
      \<or> (\<exists>gas cov spec x. reactor system_X = SurfaceReactor gas cov \<and>
            ((spec, x) \<in> set gas \<or> (spec, x) \<in> set cov) \<and> ?d spec = None)
      \<or> (\<exists>fr spec x. reactor system_X = SimpleReactor fr \<and> (spec, x) \<in> set fr \<and>
            ?d spec = None)
      \<or> (\<exists>fr ks spec x. reactor system_X = MBSampledReactor fr ks \<and> (spec, x) \<in> set fr \<and>
            ?d spec = None)
      \<or> (\<exists>spec x. TerminationConversion spec x \<in> set (termination_list system_X) \<and>
            ?d spec = None)
      \<or> (sensitive_species system_X \<noteq> [SensName ''all''] \<and>
          (\<exists>spec. SensSpecies spec \<in> set (sensitive_species system_X) \<and> ?d spec = None))"
    by blast
  from unresolved_reference_is_fatal [OF h1 h2 h3, of pair_in_order listing_env
      "''job/input.py''" "[]" False "[]"]
  show ?thesis by (simp add: job_X_def)
qed

section \<open>Termination criteria\<close>

text \<open>
  C9.  When the species of a reaction system are replaced, its list of termination
  criteria keeps its length; at every position a \<open>TerminationConversion\<close> keeps its
  conversion and has its species replaced by the dictionary's entry for it, and a
  criterion of any other class is unchanged.
\<close>

theorem only_conversion_criteria_remapped:
  assumes "remap_reaction_system species_dict initial rs = Inr rs'"
  shows "length (termination_list rs') = length (termination_list rs)
    \<and> (\<forall>i < length (termination_list rs).
          case termination_list rs ! i of
            TerminationConversion spec x \<Rightarrow>
              \<exists>s. species_dict spec = Some s \<and>
                  termination_list rs' ! i = TerminationConversion s x
          | TerminationTime t \<Rightarrow> termination_list rs' ! i = TerminationTime t
          | TerminationRateRatio r \<Rightarrow> termination_list rs' ! i = TerminationRateRatio r)"
proof -
  from remap_reaction_system_Inr [OF assms]
  have "comprehension (remap_termination species_dict) (termination_list rs) =
      Inr (termination_list rs')" by auto
  from comprehension_Inr [OF this]
  have all2: "list_all2 (\<lambda>t t'. remap_termination species_dict t = Inr t')
      (termination_list rs) (termination_list rs')" .
  then have len: "length (termination_list rs') = length (termination_list rs)"
    by (simp add: list_all2_lengthD)
  have "case termination_list rs ! i of
            TerminationConversion spec x \<Rightarrow>
              \<exists>s. species_dict spec = Some s \<and>
                  termination_list rs' ! i = TerminationConversion s x
          | TerminationTime t \<Rightarrow> termination_list rs' ! i = TerminationTime t
          | TerminationRateRatio r \<Rightarrow> termination_list rs' ! i = TerminationRateRatio r"
    if "i < length (termination_list rs)" for i
  proof -
    from list_all2_nthD [OF all2 that]
    have "remap_termination species_dict (termination_list rs ! i) =
        Inr (termination_list rs' ! i)" .
    then show ?thesis by (rule remap_termination_Inr)
  qed
  with len show ?thesis by blast
qed

theorem only_conversion_criteria_remapped_witness:
  "remap_reaction_system (make_species_dict same_structure [spec_A] [chem_A, chem_B])
       [spec_A] system_A =
     Inr \<lparr>reactor = SimpleReactor [(chem_A, 1)],
          termination_list = [TerminationConversion chem_A (9 / 10), TerminationTime 10],
          sensitive_species = [SensSpecies chem_A]\<rparr>
   \<and> termination_list \<lparr>reactor = SimpleReactor [(chem_A, 1)],
          termination_list = [TerminationConversion chem_A (9 / 10), TerminationTime 10],
          sensitive_species = [SensSpecies chem_A]\<rparr> ! 1 = termination_list system_A ! 1"
proof -
  have h: "remap_reaction_system (make_species_dict same_structure [spec_A] [chem_A, chem_B])
       [spec_A] system_A =
     Inr \<lparr>reactor = SimpleReactor [(chem_A, 1)],
          termination_list = [TerminationConversion chem_A (9 / 10), TerminationTime 10],
          sensitive_species = [SensSpecies chem_A]\<rparr>"
    by (simp add: remap_reaction_system_def remap_mapping_def remap_sensitive_species_def
          getitem_def py_dict_def make_species_dict_def system_A_def example_species)
  from only_conversion_criteria_remapped [OF h] h show ?thesis
    by (simp add: system_A_def)
qed

section \<open>Sensitive species\<close>

text \<open>
  C8.  The assignment to \<open>sensitive_species\<close> is skipped, and the attribute left as it
  is, exactly when the list equals \<open>['all']\<close>.  Otherwise the list that is assigned has
  the same length and holds at every position the dictionary's entry for the species at
  that position.  In a reaction system whose replacement succeeds, a list \<open>['all']\<close> is
  still \<open>['all']\<close> and any other list is the one assigned.
\<close>

theorem sensitive_species_all_sentinel:
  "(remap_sensitive_species species_dict sens = Inr None \<longleftrightarrow> sens = [SensName ''all''])
   \<and> (remap_sensitive_species species_dict sens = Inr (Some sens') \<longrightarrow>
        length sens' = length sens \<and>
        (\<forall>i < length sens. \<exists>spec s. sens ! i = SensSpecies spec \<and> species_dict spec = Some s \<and>
           sens' ! i = SensSpecies s))
   \<and> (remap_reaction_system species_dict initial rs = Inr rs' \<longrightarrow>
        (sensitive_species rs = [SensName ''all''] \<longrightarrow>
           sensitive_species rs' = [SensName ''all'']) \<and>
        (sensitive_species rs \<noteq> [SensName ''all''] \<longrightarrow>
           remap_sensitive_species species_dict (sensitive_species rs) =
             Inr (Some (sensitive_species rs'))))"
proof (intro conjI impI)
  show "remap_sensitive_species species_dict sens = Inr None \<longleftrightarrow> sens = [SensName ''all'']"
    by (auto simp: remap_sensitive_species_def split: sum.splits)
next
  assume a: "remap_sensitive_species species_dict sens = Inr (Some sens')"
  then have "comprehension (remap_sens_entry species_dict) sens = Inr sens'"
    by (auto simp: remap_sensitive_species_def split: sum.splits if_splits)
  from comprehension_Inr [OF this]
  have all2: "list_all2 (\<lambda>e e'. remap_sens_entry species_dict e = Inr e') sens sens'" .
  then show "length sens' = length sens" by (simp add: list_all2_lengthD)
  show "\<forall>i < length sens. \<exists>spec s. sens ! i = SensSpecies spec \<and> species_dict spec = Some s \<and>
           sens' ! i = SensSpecies s"
  proof (intro allI impI)
    fix i assume "i < length sens"
    from list_all2_nthD [OF all2 this]
    show "\<exists>spec s. sens ! i = SensSpecies spec \<and> species_dict spec = Some s \<and>
           sens' ! i = SensSpecies s"
      by (rule remap_sens_entry_Inr)
  qed
next
  assume a: "remap_reaction_system species_dict initial rs = Inr rs'"
    and b: "sensitive_species rs = [SensName ''all'']"
  from remap_reaction_system_Inr [OF a] b
  show "sensitive_species rs' = [SensName ''all'']"
    by (auto simp: remap_sensitive_species_def)
next
  assume a: "remap_reaction_system species_dict initial rs = Inr rs'"
    and b: "sensitive_species rs \<noteq> [SensName ''all'']"
  from remap_reaction_system_Inr [OF a] b
  show "remap_sensitive_species species_dict (sensitive_species rs) =
             Inr (Some (sensitive_species rs'))"
    by (auto simp: remap_sensitive_species_def split: sum.splits)
qed

theorem sensitive_species_all_sentinel_witness:
  "remap_sensitive_species (make_species_dict same_structure [spec_A] [chem_A, chem_B])
       [SensName ''all''] = Inr None
   \<and> remap_sensitive_species (make_species_dict same_structure [spec_A] [chem_A, chem_B])
       [SensSpecies spec_A] = Inr (Some [SensSpecies chem_A])
   \<and> remap_sensitive_species (make_species_dict same_structure [spec_A] [chem_A, chem_B])
       [] = Inr (Some [])
   \<and> sensitive_species \<lparr>reactor = SimpleReactor [(chem_A, 1)],
          termination_list = [TerminationConversion chem_A (9 / 10), TerminationTime 10],
          sensitive_species = [SensName ''all'']\<rparr> = [SensName ''all'']"
proof -
  let ?d = "make_species_dict same_structure [spec_A] [chem_A, chem_B]"
  have h: "remap_reaction_system ?d [spec_A] system_all =
     Inr \<lparr>reactor = SimpleReactor [(chem_A, 1)],
          termination_list = [TerminationConversion chem_A (9 / 10), TerminationTime 10],
          sensitive_species = [SensName ''all'']\<rparr>"
    by (simp add: remap_reaction_system_def remap_mapping_def remap_sensitive_species_def
          getitem_def py_dict_def make_species_dict_def system_A_def system_all_def
          example_species)
  have all: "sensitive_species system_all = [SensName ''all'']"
    by (simp add: system_all_def)
  have s: "remap_sensitive_species ?d [SensSpecies spec_A] = Inr (Some [SensSpecies chem_A])"
    by (simp add: remap_sensitive_species_def getitem_def make_species_dict_def example_species)
  from sensitive_species_all_sentinel
    [where species_dict = ?d and sens = "[SensName ''all'']" and initial = "[spec_A]"
       and rs = system_all and sens' = "[]"
       and rs' = "\<lparr>reactor = SimpleReactor [(chem_A, 1)],
          termination_list = [TerminationConversion chem_A (9 / 10), TerminationTime 10],
          sensitive_species = [SensName ''all'']\<rparr>"] h all
    sensitive_species_all_sentinel
    [where species_dict = ?d and sens = "[SensSpecies spec_A]" and initial = "[spec_A]"
       and rs = system_all and sens' = "[SensSpecies chem_A]"
       and rs' = "\<lparr>reactor = SimpleReactor [(chem_A, 1)],
          termination_list = [TerminationConversion chem_A (9 / 10), TerminationTime 10],
          sensitive_species = [SensName ''all'']\<rparr>"] s
  show ?thesis
    by (simp add: remap_sensitive_species_def)
qed

section \<open>Constant species of a liquid reactor\<close>

lemma first_equal_label_eq:
  "first_equal_label l names = (if l \<in> set names then Some l else None)"
  by (induction names) auto

lemma filter_label_empty: "filter (\<lambda>s. label s = name) xs = [] \<longleftrightarrow> name \<notin> label ` set xs"
  by (induction xs) auto

lemma build_const_species_dict_eq:
  "build_const_species_dict d names cd initial =
     (if \<exists>spec0 \<in> set initial. label spec0 \<in> set names \<and> d spec0 = None then Inl KeyError
      else Inr (\<lambda>name. if name \<in> set names \<and> name \<in> label ` set initial
                        then Some (label (the (d (last (filter (\<lambda>s. label s = name) initial)))))
                        else cd name))"
proof (induction initial arbitrary: cd)
  case Nil
  then show ?case by simp
next
  case (Cons spec0 rest)
  show ?case
  proof (cases "label spec0 \<in> set names")
    case False
    then have "build_const_species_dict d names cd (spec0 # rest) =
        build_const_species_dict d names cd rest"
      by (simp add: first_equal_label_eq)
    also note Cons.IH [of cd]
    finally show ?thesis using False
      by (auto simp: fun_eq_iff)
  next
    case True
    show ?thesis
    proof (cases "d spec0")
      case None
      with True show ?thesis by (auto simp: first_equal_label_eq getitem_def)
    next
      case (Some s)
      with True have "build_const_species_dict d names cd (spec0 # rest) =
          build_const_species_dict d names (cd(label spec0 \<mapsto> label s)) rest"
        by (simp add: first_equal_label_eq getitem_def)
      also note Cons.IH [of "cd(label spec0 \<mapsto> label s)"]
      finally show ?thesis using True Some
        by (auto simp: fun_eq_iff filter_label_empty)
    qed
  qed
qed

lemma remap_const_spc_names_eq:
  assumes "names \<noteq> []"
  shows "remap_const_spc_names d initial (Some names) =
     (if (\<exists>spec0 \<in> set initial. label spec0 \<in> set names \<and> d spec0 = None) \<or>
         (\<exists>name \<in> set names. name \<notin> label ` set initial)
      then Inl KeyError
      else Inr (Some (map (\<lambda>name. label (the (d (last (filter (\<lambda>s. label s = name) initial)))))
                       names)))"
proof (cases "\<exists>spec0 \<in> set initial. label spec0 \<in> set names \<and> d spec0 = None")
  case True
  then show ?thesis using assms
    by (simp add: remap_const_spc_names_def build_const_species_dict_eq)
next
  case False
  let ?cd = "\<lambda>name. if name \<in> set names \<and> name \<in> label ` set initial
                        then Some (label (the (d (last (filter (\<lambda>s. label s = name) initial)))))
                        else None"
  have build: "build_const_species_dict d names Map.empty initial = Inr ?cd"
    using False by (simp add: build_const_species_dict_eq)
  show ?thesis
  proof (cases "\<exists>name \<in> set names. name \<notin> label ` set initial")
    case True
    then obtain name where name: "name \<in> set names" "name \<notin> label ` set initial" by blast
    then have "getitem ?cd name = Inl KeyError" by (simp add: getitem_def)
    from comprehension_KeyError [of "getitem ?cd" name names KeyError, OF _ name(1) this]
    have "comprehension (getitem ?cd) names = Inl KeyError"
      by (auto dest: getitem_Inl)
    with build True assms show ?thesis
      by (simp add: remap_const_spc_names_def)
  next
    case allin: False
    have "comprehension (getitem ?cd) names =
        Inr (map (\<lambda>name. label (the (d (last (filter (\<lambda>s. label s = name) initial))))) names)"
      by (rule comprehension_map) (use allin in \<open>auto simp: getitem_def\<close>)
    with build False allin assms show ?thesis
      by (simp add: remap_const_spc_names_def)
  qed
qed

text \<open>
  C10.  For a non-empty list of constant species names, the replacement raises
  \<open>KeyError\<close> exactly when some name is the label of no initial species, or some initial
  species whose label is in the list has no entry in the species dictionary; the liquid
  reactor's replacement then raises \<open>KeyError\<close> too.  Otherwise every name is replaced
  by the label of the dictionary's entry for the initial species of that label (the last
  one in the list, if several have it): when the concentrations are replaced as well, the
  new liquid reactor holds this list of labels and the new concentrations, and whenever
  the replacement of a reaction system with such a reactor returns, neither condition
  holds and the constant species names of its reactor are this list.
\<close>

theorem constant_species_names_resolved:
  assumes "names \<noteq> []"
  shows "(remap_const_spc_names species_dict initial (Some names) = Inl KeyError \<longleftrightarrow>
            (\<exists>name \<in> set names. name \<notin> label ` set initial) \<or>
            (\<exists>spec0 \<in> set initial. label spec0 \<in> set names \<and> species_dict spec0 = None))
    \<and> ((\<exists>name \<in> set names. name \<notin> label ` set initial) \<or>
        (\<exists>spec0 \<in> set initial. label spec0 \<in> set names \<and> species_dict spec0 = None) \<longrightarrow>
          remap_reactor species_dict initial (LiquidReactor (Some names) conc) = Inl KeyError)
    \<and> (\<not> ((\<exists>name \<in> set names. name \<notin> label ` set initial) \<or>
           (\<exists>spec0 \<in> set initial. label spec0 \<in> set names \<and> species_dict spec0 = None)) \<longrightarrow>
          remap_const_spc_names species_dict initial (Some names) =
            Inr (Some (map (\<lambda>name. label (the (species_dict
                           (last (filter (\<lambda>spec0. label spec0 = name) initial))))) names)))
    \<and> (\<not> ((\<exists>name \<in> set names. name \<notin> label ` set initial) \<or>
           (\<exists>spec0 \<in> set initial. label spec0 \<in> set names \<and> species_dict spec0 = None)) \<and>
        remap_mapping species_dict conc = Inr conc' \<longrightarrow>
          remap_reactor species_dict initial (LiquidReactor (Some names) conc) =
            Inr (LiquidReactor
                   (Some (map (\<lambda>name. label (the (species_dict
                           (last (filter (\<lambda>spec0. label spec0 = name) initial))))) names))
                   conc'))
    \<and> (reactor rs = LiquidReactor (Some names) conc \<and>
        remap_reaction_system species_dict initial rs = Inr rs' \<longrightarrow>
          \<not> ((\<exists>name \<in> set names. name \<notin> label ` set initial) \<or>
             (\<exists>spec0 \<in> set initial. label spec0 \<in> set names \<and> species_dict spec0 = None)) \<and>
          const_spc_names (reactor rs') =
            Some (map (\<lambda>name. label (the (species_dict
                           (last (filter (\<lambda>spec0. label spec0 = name) initial))))) names))"
proof -
  let ?fail = "(\<exists>name \<in> set names. name \<notin> label ` set initial) \<or>
        (\<exists>spec0 \<in> set initial. label spec0 \<in> set names \<and> species_dict spec0 = None)"
  let ?new = "map (\<lambda>name. label (the (species_dict
                           (last (filter (\<lambda>spec0. label spec0 = name) initial))))) names"
  have eq: "remap_const_spc_names species_dict initial (Some names) =
      (if ?fail then Inl KeyError else Inr (Some ?new))"
    using remap_const_spc_names_eq [OF assms, of species_dict initial] by auto
  have c1: "remap_const_spc_names species_dict initial (Some names) = Inl KeyError \<longleftrightarrow> ?fail"
    by (simp add: eq)
  have c2: "?fail \<longrightarrow>
      remap_reactor species_dict initial (LiquidReactor (Some names) conc) = Inl KeyError"
    by (simp add: eq)
  have c3: "\<not> ?fail \<longrightarrow>
      remap_const_spc_names species_dict initial (Some names) = Inr (Some ?new)"
    by (simp add: eq)
  have c4: "\<not> ?fail \<and> remap_mapping species_dict conc = Inr conc' \<longrightarrow>
      remap_reactor species_dict initial (LiquidReactor (Some names) conc) =
        Inr (LiquidReactor (Some ?new) conc')"
    by (simp add: eq)
  have c5: "reactor rs = LiquidReactor (Some names) conc \<and>
        remap_reaction_system species_dict initial rs = Inr rs' \<longrightarrow>
          \<not> ?fail \<and> const_spc_names (reactor rs') = Some ?new"
  proof
    assume a: "reactor rs = LiquidReactor (Some names) conc \<and>
        remap_reaction_system species_dict initial rs = Inr rs'"
    from remap_reaction_system_Inr [of species_dict initial rs rs'] a
    have r: "remap_reactor species_dict initial (LiquidReactor (Some names) conc) =
        Inr (reactor rs')" by auto
    have nf: "\<not> ?fail"
    proof
      assume ?fail
      with c2 r show False by simp
    qed
    define r' where "r' = reactor rs'"
    from r have "remap_reactor species_dict initial (LiquidReactor (Some names) conc) = Inr r'"
      by (simp only: r'_def)
    moreover have "remap_const_spc_names species_dict initial (Some names) = Inr (Some ?new)"
      by (rule mp [OF c3 nf])
    ultimately have "\<exists>conc'. r' = LiquidReactor (Some ?new) conc'"
      by (auto split: sum.splits)
    then have "\<exists>conc'. reactor rs' = LiquidReactor (Some ?new) conc'"
      by (simp only: r'_def)
    then obtain conc2 where "reactor rs' = LiquidReactor (Some ?new) conc2" ..
    then have "const_spc_names (reactor rs') = Some ?new"
      by (simp only: reactor.sel)
    with nf show "\<not> ?fail \<and> const_spc_names (reactor rs') = Some ?new" by simp
  qed
  from c1 c2 c3 c4 c5 show ?thesis by (intro conjI)
qed

theorem constant_species_names_resolved_witness:
  "remap_reactor (make_species_dict same_structure [spec_A, spec_X] [chem_A_dup])
       [spec_A, spec_X] (LiquidReactor (Some [''A'']) [(spec_A, 1)]) =
     Inr (LiquidReactor (Some [''A(2)'']) [(chem_A_dup, 1)])
   \<and> remap_reaction_system (make_species_dict same_structure [spec_A, spec_X] [chem_A_dup])
       [spec_A, spec_X] liquid_system =
     Inr \<lparr>reactor = LiquidReactor (Some [''A(2)'']) [(chem_A_dup, 1)],
          termination_list = [], sensitive_species = []\<rparr>
   \<and> remap_const_spc_names (make_species_dict same_structure [spec_A, spec_X] [chem_A_dup])
       [spec_A, spec_X] (Some [''A'']) = Inr (Some [''A(2)''])
   \<and> remap_reactor (make_species_dict same_structure [spec_A, spec_X] [chem_A_dup])
       [spec_A, spec_X] (LiquidReactor (Some [''A'', ''Q'']) [(spec_A, 1)]) = Inl KeyError
   \<and> remap_reactor (make_species_dict same_structure [spec_A, spec_X] [chem_A_dup])
       [spec_A, spec_X] (LiquidReactor (Some [''X'']) [(spec_A, 1)]) = Inl KeyError"
proof -
  let ?d = "make_species_dict same_structure [spec_A, spec_X] [chem_A_dup]"
  let ?init = "[spec_A, spec_X]"
  let ?conc = "[(spec_A, 1::real)]"
  have n1: "[''A''] \<noteq> []" by simp
  have n2: "[''A'', ''Q''] \<noteq> []" by simp
  have n3: "[''X''] \<noteq> []" by simp
  have dA: "?d spec_A = Some chem_A_dup"
    by (simp add: make_species_dict_def example_species)
  have dX: "?d spec_X = None"
    by (simp add: make_species_dict_def example_species)
  have m: "remap_mapping ?d ?conc = Inr [(chem_A_dup, 1)]"
    by (simp add: remap_mapping_def getitem_def py_dict_def dA)
  have rs: "reactor liquid_system = LiquidReactor (Some [''A'']) ?conc"
    by (simp add: liquid_system_def)
  have sys: "remap_reaction_system ?d ?init liquid_system =
      Inr \<lparr>reactor = LiquidReactor (Some [''A(2)'']) [(chem_A_dup, 1)],
          termination_list = [], sensitive_species = []\<rparr>"
    by (simp add: remap_reaction_system_def remap_const_spc_names_def
        remap_sensitive_species_def remap_mapping_def getitem_def py_dict_def
        liquid_system_def make_species_dict_def example_species)
  show ?thesis
    using constant_species_names_resolved [OF n1, of ?d ?init ?conc "[(chem_A_dup, 1)]"
        liquid_system "\<lparr>reactor = LiquidReactor (Some [''A(2)'']) [(chem_A_dup, 1)],
          termination_list = [], sensitive_species = []\<rparr>"]
      constant_species_names_resolved [OF n2, of ?d ?init ?conc "[]" liquid_system liquid_system]
      constant_species_names_resolved [OF n3, of ?d ?init ?conc "[]" liquid_system liquid_system]
      dA dX m rs sys
    by (simp add: spec_A_def spec_X_def chem_A_dup_def)
qed
section \<open>Mole fractions\<close>









section \<open>The image directory\<close>

lemma draw_species_all_exist:
  "(\<And>s. s \<in> set xs \<Longrightarrow>
      os_path_exists env (os_path_join env species_path (str_species env s @ ''.png'')) fs) \<Longrightarrow>
   draw_species env species_path fs xs = Inr fs"
  by (induction xs) (simp_all add: Let_def)

text \<open>
  C7, as the code has it.  \<open>except OSError: pass\<close> catches every \<open>OSError\<close>: when
  \<open>os.mkdir\<close> raises \<open>PermissionError\<close>, the function goes on and, the image being there,
  returns the job.
\<close>

theorem mkdir_failure_counterexample:
  "os_mkdir denied_env ''job/species'' [''job/species/A.png''] = Inl PermissionError
   \<and> make_species_dir denied_env ''job/species'' [''job/species/A.png''] =
       [''job/species/A.png'']
   \<and> load_rmg_py_job same_structure pair_in_order denied_env ''job/input.py'' job_A
       [chem_A] [] True 100 [''job/species/A.png''] =
     Inr (\<lparr>initial_species = [spec_A],
           reaction_systems =
             [\<lparr>reactor = SimpleReactor [(chem_A, 1)],
               termination_list = [TerminationConversion chem_A (9 / 10), TerminationTime 10],
               sensitive_species = [SensSpecies chem_A]\<rparr>],
           core_species = [chem_A], core_reactions = []\<rparr>,
          [''job/species/A.png''])"
  by (simp add: load_rmg_py_job_def generate_species_images_def make_species_dir_def
        remap_reaction_system_def remap_mapping_def remap_sensitive_species_def
        getitem_def py_dict_def make_species_dict_def job_A_def system_A_def
        example_env example_species)

text \<open>
  C7, amended.  Whatever \<open>OSError\<close> the creation of the image directory raises, that the
  directory exists or any other, it is not raised to the caller: the file system is as
  before, the loop over the species runs on it, and when every image exists the images
  step returns normally.
\<close>

theorem mkdir_failure_is_swallowed:
  assumes "species_path = os_path_join env (os_path_dirname env input_file) ''species''"
    and "os_mkdir env species_path fs = Inl e"
  shows "make_species_dir env species_path fs = fs
    \<and> generate_species_images env input_file species_list fs =
        draw_species env species_path fs species_list
    \<and> ((\<forall>s \<in> set species_list.
          os_path_exists env (os_path_join env species_path (str_species env s @ ''.png'')) fs) \<longrightarrow>
        generate_species_images env input_file species_list fs = Inr fs)"
proof -
  have dir: "make_species_dir env species_path fs = fs"
    using assms(2) by (simp add: make_species_dir_def)
  have gen: "generate_species_images env input_file species_list fs =
        draw_species env species_path fs species_list"
    by (simp add: generate_species_images_def Let_def assms(1) [symmetric] dir)
  have "generate_species_images env input_file species_list fs = Inr fs"
    if "\<forall>s \<in> set species_list.
          os_path_exists env (os_path_join env species_path (str_species env s @ ''.png'')) fs"
    using that by (simp add: gen draw_species_all_exist)
  with dir gen show ?thesis by blast
qed

theorem mkdir_failure_is_swallowed_witness:
  "generate_species_images denied_env ''job/input.py'' [chem_A] [''job/species/A.png''] =
     Inr [''job/species/A.png'']
   \<and> generate_species_images listing_env ''job/input.py'' [chem_A]
       [''job/species'', ''job/species/A.png''] =
     Inr [''job/species'', ''job/species/A.png'']"
proof -
  have p1: "''job/species'' =
      os_path_join denied_env (os_path_dirname denied_env ''job/input.py'') ''species''"
    by (simp add: example_env)
  have p2: "''job/species'' =
      os_path_join listing_env (os_path_dirname listing_env ''job/input.py'') ''species''"
    by (simp add: example_env)
  have m1: "os_mkdir denied_env ''job/species'' [''job/species/A.png''] = Inl PermissionError"
    by (simp add: example_env)
  have m2: "os_mkdir listing_env ''job/species'' [''job/species'', ''job/species/A.png''] =
      Inl FileExistsError"
    by (simp add: example_env)
  from mkdir_failure_is_swallowed [OF p1 m1, of "[chem_A]"]
    mkdir_failure_is_swallowed [OF p2 m2, of "[chem_A]"]
  show ?thesis
    by (simp add: example_env chem_A_def)
qed


end
